theory Spec2Isabelle
  imports Complex_Main
begin

section \<open>Shared Python and tensor primitives\<close>

text \<open>
  The exceptions the modelled code can raise. Every raise of the source is a branch
  returning \<open>Inl\<close> of one of these.
\<close>

datatype error = IndexError | AssertionError | RuntimeError

text \<open>
  Tensor entries are float32 in the source. They are modelled as real numbers: the
  properties proved below concern which points are compared, filtered and averaged, not
  rounding.
\<close>

type_synonym point = "real \<times> real \<times> real"

text \<open>
  \<open>t[i]\<close> on the first dimension of a tensor or array: a negative index counts from the
  end, an index outside \<open>-n .. n-1\<close> raises IndexError.
\<close>

definition py_index :: "'a list \<Rightarrow> int \<Rightarrow> error + 'a" where
  "py_index xs i =
     (if 0 \<le> i \<and> i < int (length xs) then Inr (xs ! nat i)
      else if i < 0 \<and> - int (length xs) \<le> i then Inr (xs ! nat (int (length xs) + i))
      else Inl IndexError)"

text \<open>
  The rows kept by a boolean mask, in order. \<open>t[mask]\<close> raises IndexError when the mask's
  length differs from the tensor's first dimension.
\<close>

fun masked :: "'a list \<Rightarrow> bool list \<Rightarrow> 'a list" where
  "masked (x # xs) (b # bs) = (if b then x # masked xs bs else masked xs bs)"
| "masked _ _ = []"

definition bool_index :: "'a list \<Rightarrow> bool list \<Rightarrow> error + 'a list" where
  "bool_index xs keep =
     (if length keep \<noteq> length xs then Inl IndexError else Inr (masked xs keep))"

text \<open>
  \<open>x[:k]\<close>: the first \<open>k\<close> rows; for negative \<open>k\<close> all but the last \<open>-k\<close> rows. A slice
  never raises.
\<close>

definition slice_to :: "'a list \<Rightarrow> int \<Rightarrow> 'a list" where
  "slice_to xs k =
     (if 0 \<le> k then take (nat k) xs else take (length xs - nat (- k)) xs)"

text \<open>\<open>range(start, end)\<close> as the list of its indices.\<close>

definition py_range :: "int \<Rightarrow> int \<Rightarrow> int list" where
  "py_range start end_frame = [start..end_frame - 1]"

section \<open>evaluate\_chamfer.py\<close>

subsection \<open>The library's Chamfer distance\<close>

text \<open>
  \<open>chamfer_distance\<close> is imported from pytorch3d and is not part of the repository's
  sources. It is modelled from the library's documented contract for the arguments the
  source passes (one batch element, \<open>single_directional=True\<close>, \<open>norm=1\<close>, the default
  mean reductions): the loss is, for each point of the FIRST argument \<open>x\<close>, the L1
  distance to its nearest neighbour in the SECOND argument \<open>y\<close>, summed over \<open>x\<close> and
  divided by the number of points of \<open>x\<close> (clamped below by 1), then averaged over the
  batch of size 1. The nearest-neighbour search keeps the smallest distance seen so far;
  its distance buffer is initialised with zeros, which is what a point gets when \<open>y\<close> is
  empty.
\<close>

definition l1_dist :: "point \<Rightarrow> point \<Rightarrow> real" where
  "l1_dist p q =
     (case p of (px, py, pz) \<Rightarrow> case q of (qx, qy, qz) \<Rightarrow>
        \<bar>px - qx\<bar> + \<bar>py - qy\<bar> + \<bar>pz - qz\<bar>)"

fun knn_dist :: "point \<Rightarrow> point list \<Rightarrow> real" where
  "knn_dist p [] = 0"
| "knn_dist p (q # qs) =
     fold (\<lambda>q' best. if l1_dist p q' < best then l1_dist p q' else best) qs (l1_dist p q)"

definition chamfer_distance :: "point list \<Rightarrow> point list \<Rightarrow> real" where
  "chamfer_distance x y =
     (let cham_x = sum_list (map (\<lambda>p. knn_dist p y) x);
          x_lengths_clamped = max (length x) 1;
          N = (1::nat)
      in (cham_x / real x_lengths_clamped) / real (max N 1))"

subsection \<open>evaluate\_prediction\<close>

text \<open>
  \<open>np.mean\<close> of the collected errors. The mean of an empty array is NaN (numpy warns
  and returns it), so the reported value is either a number or NaN.
\<close>

datatype npfloat = Finite real | NaN

definition np_mean :: "real list \<Rightarrow> npfloat" where
  "np_mean xs = (if xs = [] then NaN else Finite (sum_list xs / real (length xs)))"

record results =
  frame_len :: nat
  chamfer_error :: npfloat

text \<open>
  The body of the frame loop for one \<open>frame_idx\<close>: the value appended to
  \<open>chamfer_errors\<close>, or the exception raised by one of the four index operations or by
  the boolean-mask selection. \<open>object_motions_valid[frame_idx - 1]\<close> is read and its
  value is not used afterwards.
\<close>

definition frame_chamfer ::
  "point list list \<Rightarrow> point list list \<Rightarrow> bool list list \<Rightarrow> bool list list \<Rightarrow> int \<Rightarrow> int
     \<Rightarrow> error + real" where
  "frame_chamfer vertices object_points object_visibilities object_motions_valid
       num_surface_points frame_idx =
     (case py_index vertices frame_idx of Inl e \<Rightarrow> Inl e | Inr x \<Rightarrow>
     (case py_index object_points frame_idx of Inl e \<Rightarrow> Inl e
      | Inr current_object_points \<Rightarrow>
     (case py_index object_visibilities frame_idx of Inl e \<Rightarrow> Inl e
      | Inr current_object_visibilities \<Rightarrow>
     (case py_index object_motions_valid (frame_idx - 1) of Inl e \<Rightarrow> Inl e
      | Inr current_object_motions_valid \<Rightarrow>
     (case bool_index current_object_points current_object_visibilities of Inl e \<Rightarrow> Inl e
      | Inr chamfer_object_points \<Rightarrow>
        (let chamfer_x = slice_to x num_surface_points
         in Inr (chamfer_distance chamfer_object_points chamfer_x)))))))"

text \<open>
  The loop \<open>for frame_idx in range(start_frame, end_frame)\<close> with the list
  \<open>chamfer_errors\<close> as its state; an exception leaves the loop at once.
\<close>

fun frame_loop ::
  "point list list \<Rightarrow> point list list \<Rightarrow> bool list list \<Rightarrow> bool list list \<Rightarrow> int \<Rightarrow> int list
     \<Rightarrow> real list \<Rightarrow> error + real list" where
  "frame_loop V P VIS MV nsp [] chamfer_errors = Inr chamfer_errors"
| "frame_loop V P VIS MV nsp (frame_idx # rest) chamfer_errors =
     (case frame_chamfer V P VIS MV nsp frame_idx of
        Inl e \<Rightarrow> Inl e
      | Inr item \<Rightarrow> frame_loop V P VIS MV nsp rest (chamfer_errors @ [item]))"

definition evaluate_prediction ::
  "int \<Rightarrow> int \<Rightarrow> point list list \<Rightarrow> point list list \<Rightarrow> bool list list \<Rightarrow> bool list list
     \<Rightarrow> int \<Rightarrow> int \<Rightarrow> error + results" where
  "evaluate_prediction start_frame end_frame vertices object_points object_visibilities
       object_motions_valid num_original_points num_surface_points =
     (case frame_loop vertices object_points object_visibilities object_motions_valid
             num_surface_points (py_range start_frame end_frame) [] of
        Inl e \<Rightarrow> Inl e
      | Inr chamfer_errors \<Rightarrow>
          Inr \<lparr>frame_len = length chamfer_errors, chamfer_error = np_mean chamfer_errors\<rparr>)"

subsection \<open>The evaluation run\<close>

text \<open>
  What the run loads for one case directory: the predicted vertices of
  \<open>inference.pkl\<close>, the arrays of \<open>final_data.pkl\<close>, and the two frame numbers
  \<open>split["train"][1]\<close> and \<open>split["test"][1]\<close> of \<open>split.json\<close>. Reading and parsing the
  files is glue outside the model.
\<close>

record case_files =
  case_name :: string
  inference_vertices :: "point list list"
  data_object_points :: "point list list"
  data_object_visibilities :: "bool list list"
  data_object_motions_valid :: "bool list list"
  data_surface_points :: "point list"
  train_frame :: int
  test_frame :: int

text \<open>
  \<open>object_points.shape[1]\<close>. The array is rectangular, so every frame has this many
  points; for an array with no frame the value is taken as 0 (no frame is then ever
  sliced with it).
\<close>

definition shape1 :: "'a list list \<Rightarrow> nat" where
  "shape1 t = (case t of [] \<Rightarrow> 0 | frame # _ \<Rightarrow> length frame)"

type_synonym csv_row = "string \<times> nat \<times> npfloat \<times> nat \<times> npfloat"

text \<open>
  The body of the loop over case directories: the assertion on the frame count, the
  train split evaluated from frame 1, the test split from \<open>train_frame\<close>, and the row
  written to the CSV file.
\<close>

definition process_case :: "case_files \<Rightarrow> error + csv_row" where
  "process_case c =
     (let vertices = inference_vertices c;
          object_points = data_object_points c;
          object_visibilities = data_object_visibilities c;
          object_motions_valid = data_object_motions_valid c;
          num_original_points = int (shape1 object_points);
          num_surface_points = num_original_points + int (length (data_surface_points c))
      in if test_frame c \<noteq> int (length vertices) then Inl AssertionError
         else
          (case evaluate_prediction 1 (train_frame c) vertices object_points
                  object_visibilities object_motions_valid num_original_points
                  num_surface_points of
             Inl e \<Rightarrow> Inl e
           | Inr results_train \<Rightarrow>
          (case evaluate_prediction (train_frame c) (test_frame c) vertices object_points
                  object_visibilities object_motions_valid num_original_points
                  num_surface_points of
             Inl e \<Rightarrow> Inl e
           | Inr results_test \<Rightarrow>
               Inr (case_name c, frame_len results_train, chamfer_error results_train,
                    frame_len results_test, chamfer_error results_test))))"

text \<open>
  The loop over all case directories, with the rows written so far as its state. The
  first exception ends the run.
\<close>

fun main_loop :: "case_files list \<Rightarrow> csv_row list \<Rightarrow> error + csv_row list" where
  "main_loop [] rows = Inr rows"
| "main_loop (c # cs) rows =
     (case process_case c of Inl e \<Rightarrow> Inl e | Inr row \<Rightarrow> main_loop cs (rows @ [row]))"

text \<open>
  The one-directional L1 Chamfer distance from a point set \<open>src\<close> to a point set \<open>tgt\<close>,
  as a mathematical reference: the mean over \<open>src\<close> of the L1 distance to the nearest
  point of \<open>tgt\<close>. It is meaningful for non-empty \<open>src\<close> and \<open>tgt\<close>.
\<close>

definition one_way_l1_chamfer :: "point list \<Rightarrow> point list \<Rightarrow> real" where
  "one_way_l1_chamfer src tgt =
     (\<Sum>p\<leftarrow>src. Min ((\<lambda>q. l1_dist p q) ` set tgt)) / real (length src)"

section \<open>gs\_render.py\<close>

subsection \<open>Gaussian sets and views\<close>

text \<open>
  The six per-point attribute tensors of a \<open>GaussianModel\<close> that the pruning functions
  replace (\<open>_xyz\<close>, \<open>_features_dc\<close>, \<open>_features_rest\<close>, \<open>_scaling\<close>, \<open>_rotation\<close>,
  \<open>_opacity\<close>), each a list with one entry per point. The class itself belongs to the
  \<open>gaussian_splatting\<close> package, which is not among the sources.
\<close>

record gaussians =
  xyz :: "point list"
  features_dc :: "real list list"
  features_rest :: "real list list"
  scaling :: "real list list"
  rotation :: "real list list"
  opacity :: "real list"

text \<open>
  A camera view: the image size, the camera matrices and the alpha mask after
  \<open>squeeze(0)\<close>, a list of rows of mask values.
\<close>

record view =
  image_height :: int
  image_width :: int
  cam_K :: "real list list"
  cam_R :: "real list list"
  cam_T :: "real list"
  alpha_mask :: "real list list"

text \<open>
  The six assignments \<open>new_gaussians._attr = gaussians._attr[mask3d]\<close> on a deep copy
  of the model, which every pruning function ends with. Each boolean-mask selection
  raises IndexError when the mask is not as long as the attribute tensor.
\<close>

definition select_gaussians :: "gaussians \<Rightarrow> bool list \<Rightarrow> error + gaussians" where
  "select_gaussians g mask3d =
     (case bool_index (xyz g) mask3d of Inl e \<Rightarrow> Inl e | Inr new_xyz \<Rightarrow>
     (case bool_index (features_dc g) mask3d of Inl e \<Rightarrow> Inl e | Inr new_features_dc \<Rightarrow>
     (case bool_index (features_rest g) mask3d of Inl e \<Rightarrow> Inl e | Inr new_features_rest \<Rightarrow>
     (case bool_index (scaling g) mask3d of Inl e \<Rightarrow> Inl e | Inr new_scaling \<Rightarrow>
     (case bool_index (rotation g) mask3d of Inl e \<Rightarrow> Inl e | Inr new_rotation \<Rightarrow>
     (case bool_index (opacity g) mask3d of Inl e \<Rightarrow> Inl e | Inr new_opacity \<Rightarrow>
        Inr (g\<lparr>xyz := new_xyz, features_dc := new_features_dc,
               features_rest := new_features_rest, scaling := new_scaling,
               rotation := new_rotation, opacity := new_opacity\<rparr>)))))))"

subsection \<open>remove\_gaussians\_with\_mask\<close>

text \<open>
  Lines 190 to 205 of the source compute, in float32 matrix arithmetic followed by
  \<open>round().long()\<close>, the integer pixel coordinates \<open>(u, v)\<close> of every gaussian in a view.
  That computation is the parameter \<open>project\<close> of the model: the results below hold for
  every such function, so for the one the tensor library computes.
\<close>

type_synonym projection = "view \<Rightarrow> point \<Rightarrow> int \<times> int"

definition valid_uv :: "view \<Rightarrow> int \<Rightarrow> int \<Rightarrow> bool" where
  "valid_uv view u v =
     (u \<ge> 0 \<and> u < image_width view \<and> v \<ge> 0 \<and> v < image_height view)"

text \<open>\<open>alpha_mask[v, u]\<close>: row \<open>v\<close>, column \<open>u\<close>, IndexError outside the tensor.\<close>

definition mask_at :: "real list list \<Rightarrow> int \<Rightarrow> int \<Rightarrow> error + real" where
  "mask_at alpha v u =
     (case py_index alpha v of Inl e \<Rightarrow> Inl e | Inr row \<Rightarrow> py_index row u)"

text \<open>
  The inner loop \<open>for i, (u, v) in enumerate(uv)\<close> with the counter tensor as its state.
  \<open>and\<close> does not read the mask when \<open>valid_uv[i]\<close> is false. The counter is an int32
  tensor; it is modelled by unbounded integers, since it is incremented at most once per
  view.
\<close>

fun pixel_loop :: "view \<Rightarrow> (nat \<times> int \<times> int) list \<Rightarrow> int list \<Rightarrow> error + int list" where
  "pixel_loop view [] gaussians_view_counter = Inr gaussians_view_counter"
| "pixel_loop view ((i, u, v) # rest) gaussians_view_counter =
     (if valid_uv view u v then
        (case mask_at (alpha_mask view) v u of
           Inl e \<Rightarrow> Inl e
         | Inr a \<Rightarrow>
             if a > 0
             then pixel_loop view rest
                    (gaussians_view_counter[i := gaussians_view_counter ! i + 1])
             else pixel_loop view rest gaussians_view_counter)
      else pixel_loop view rest gaussians_view_counter)"

text \<open>The outer loop over the views.\<close>

fun view_loop :: "projection \<Rightarrow> view list \<Rightarrow> point list \<Rightarrow> int list \<Rightarrow> error + int list" where
  "view_loop project [] gaussians_xyz gaussians_view_counter = Inr gaussians_view_counter"
| "view_loop project (view # views) gaussians_xyz gaussians_view_counter =
     (let uv = map (project view) gaussians_xyz
      in case pixel_loop view (enumerate 0 uv) gaussians_view_counter of
           Inl e \<Rightarrow> Inl e
         | Inr counter' \<Rightarrow> view_loop project views gaussians_xyz counter')"

definition VIEW_THRESHOLD :: real where
  "VIEW_THRESHOLD = 1"

definition remove_gaussians_with_mask ::
  "projection \<Rightarrow> gaussians \<Rightarrow> view list \<Rightarrow> error + gaussians" where
  "remove_gaussians_with_mask project g views =
     (let gaussians_xyz = xyz g;
          zeros = replicate (length gaussians_xyz) (0::int)
      in case view_loop project views gaussians_xyz zeros of
           Inl e \<Rightarrow> Inl e
         | Inr gaussians_view_counter \<Rightarrow>
             (let mask3d = map (\<lambda>c. real_of_int c \<ge> real (length views) * VIEW_THRESHOLD)
                             gaussians_view_counter
              in select_gaussians g mask3d))"

subsection \<open>remove\_gaussians\_with\_low\_opacity\<close>

text \<open>
  \<open>gaussians.get_opacity\<close> is a property of \<open>GaussianModel\<close>: the model's opacity
  activation applied to \<open>_opacity\<close>. The activation is the parameter
  \<open>opacity_activation\<close>; in the gaussian-splatting package it is the sigmoid. The
  threshold argument defaults to 0.1 in the source.
\<close>

definition get_opacity :: "(real \<Rightarrow> real) \<Rightarrow> gaussians \<Rightarrow> real list" where
  "get_opacity opacity_activation g = map opacity_activation (opacity g)"

definition sigmoid :: "real \<Rightarrow> real" where
  "sigmoid x = 1 / (1 + exp (- x))"

definition remove_gaussians_with_low_opacity ::
  "(real \<Rightarrow> real) \<Rightarrow> gaussians \<Rightarrow> real \<Rightarrow> error + gaussians" where
  "remove_gaussians_with_low_opacity opacity_activation g opacity_threshold =
     (let opacity_sq = get_opacity opacity_activation g;
          mask3d = map (\<lambda>a. a > opacity_threshold) opacity_sq
      in select_gaussians g mask3d)"

subsection \<open>remove\_gaussians\_with\_point\_mesh\_distance\<close>

text \<open>
  \<open>ops.ball_query\<close> with \<open>K=1\<close> belongs to pytorch3d. For each query point it scans the
  mesh samples in order and returns the index of the first one the library finds inside
  the ball of the given radius, or -1 when there is none. The scan is written for any
  test \<open>inside\<close> that a sample lies in the ball of a query point; the library's own test
  is \<open>in_ball\<close> below.
\<close>

type_synonym ball_test = "point \<Rightarrow> point \<Rightarrow> real \<Rightarrow> bool"

fun ball_query_scan :: "ball_test \<Rightarrow> real \<Rightarrow> point \<Rightarrow> point list \<Rightarrow> nat \<Rightarrow> int" where
  "ball_query_scan inside radius p [] j = - 1"
| "ball_query_scan inside radius p (q # qs) j =
     (if inside p q radius then int j else ball_query_scan inside radius p qs (Suc j))"

definition ball_query :: "ball_test \<Rightarrow> point list \<Rightarrow> point list \<Rightarrow> real \<Rightarrow> int list" where
  "ball_query inside p1 p2 radius = map (\<lambda>p. ball_query_scan inside radius p p2 0) p1"

text \<open>
  The library's test, as pytorch3d implements it: a sample is inside the ball when its
  squared Euclidean distance to the query point is strictly below the squared radius
  (\<open>dist2 < radius2\<close> with \<open>radius2 = radius * radius\<close>).
\<close>

definition sq_dist :: "point \<Rightarrow> point \<Rightarrow> real" where
  "sq_dist p q =
     (case p of (px, py, pz) \<Rightarrow> case q of (qx, qy, qz) \<Rightarrow>
        (px - qx) * (px - qx) + (py - qy) * (py - qy) + (pz - qz) * (pz - qz))"

definition in_ball :: ball_test where
  "in_ball p q radius = (sq_dist p q < radius * radius)"

definition remove_gaussians_with_point_mesh_distance ::
  "ball_test \<Rightarrow> gaussians \<Rightarrow> point list \<Rightarrow> real \<Rightarrow> error + gaussians" where
  "remove_gaussians_with_point_mesh_distance inside g mesh_sampled_points dist_threshold =
     (let gaussians_xyz = xyz g;
          dists_bq_idx = ball_query inside gaussians_xyz mesh_sampled_points dist_threshold;
          mask3d = map (\<lambda>idx. idx \<noteq> - 1) dists_bq_idx
      in select_gaussians g mask3d)"

subsection \<open>get\_ray\_directions\<close>

text \<open>
  The intrinsics \<open>K\<close>, a 3 by 3 tensor: \<open>mRC\<close> is \<open>K[R, C]\<close>. The tensor is passed by
  reference, so the model returns its contents after the call next to the result.
\<close>

record mat3 =
  m00 :: real
  m01 :: real
  m02 :: real
  m10 :: real
  m11 :: real
  m12 :: real
  m20 :: real
  m21 :: real
  m22 :: real

text \<open>\<open>K *= a\<close>: every entry multiplied in place.\<close>

definition imul :: "mat3 \<Rightarrow> real \<Rightarrow> mat3" where
  "imul K a =
     \<lparr>m00 = m00 K * a, m01 = m01 K * a, m02 = m02 K * a,
      m10 = m10 K * a, m11 = m11 K * a, m12 = m12 K * a,
      m20 = m20 K * a, m21 = m21 K * a, m22 = m22 K * a\<rparr>"

text \<open>
  Elementwise float division. A division by zero does not raise: the result is an
  infinity or NaN, which is no real number and is modelled by \<open>None\<close>.
\<close>

definition fdiv :: "real \<Rightarrow> real \<Rightarrow> real option" where
  "fdiv a b = (if b = 0 then None else Some (a / b))"

text \<open>A ray direction: its first two components come out of a division.\<close>

type_synonym ray = "real option \<times> real option \<times> real"

text \<open>
  \<open>create_meshgrid(H, W, False)[0]\<close> of kornia (not among the sources): the grid of
  pixel coordinates, entry \<open>[i][j]\<close> being \<open>(x, y) = (j, i)\<close>.
\<close>

definition create_meshgrid :: "nat \<Rightarrow> nat \<Rightarrow> (real \<times> real) list list" where
  "create_meshgrid H W = map (\<lambda>i. map (\<lambda>j. (real j, real i)) [0..<W]) [0..<H]"

text \<open>A per-pixel tensor, either of shape (H, W, d) or flattened to (H*W, d).\<close>

datatype 'a image = Grid "'a list list" | Flat "'a list"

text \<open>
  The samples drawn by the two \<open>torch.rand_like\<close> calls are the inputs \<open>rand_u\<close> and
  \<open>rand_v\<close>, indexed by row and column. \<open>int(H * anti_aliasing_factor)\<close> is a float64
  product followed by truncation; its value differs from the truncated real product
  for some inputs, so the operation is the parameter \<open>int_of_product\<close> of the model and
  the results hold for every such function. A negative image size makes the grid
  construction raise. The first component of the result is \<open>K\<close> as the call leaves it:
  \<open>H\<close> and \<open>W\<close> are rebound locally, while \<open>K *= ...\<close> and \<open>K[2, 2] = 1\<close> write into the
  tensor the caller passed.
\<close>

definition get_ray_directions ::
  "(int \<Rightarrow> real \<Rightarrow> int) \<Rightarrow> int \<Rightarrow> int \<Rightarrow> mat3 \<Rightarrow> (nat \<Rightarrow> nat \<Rightarrow> real) \<Rightarrow> (nat \<Rightarrow> nat \<Rightarrow> real) \<Rightarrow> bool
     \<Rightarrow> bool \<Rightarrow> bool \<Rightarrow> real \<Rightarrow> mat3 \<times> (error + ray image \<times> (real \<times> real) image option)" where
  "get_ray_directions int_of_product H W K rand_u rand_v random return_uv flatten
       anti_aliasing_factor =
     (let H1 = (if anti_aliasing_factor > 1 then int_of_product H anti_aliasing_factor else H);
          W1 = (if anti_aliasing_factor > 1 then int_of_product W anti_aliasing_factor else W);
          K1 = (if anti_aliasing_factor > 1 then (imul K anti_aliasing_factor)\<lparr>m22 := 1\<rparr>
                else K)
      in if H1 < 0 \<or> W1 < 0 then (K1, Inl RuntimeError)
         else
          (let grid = create_meshgrid (nat H1) (nat W1);
               fx = m00 K1; fy = m11 K1; cx = m02 K1; cy = m12 K1;
               directions =
                 (if random
                  then map (\<lambda>(i, row).
                         map (\<lambda>(j, (u, v)).
                                (fdiv (u - cx + rand_u i j) fx, fdiv (v - cy + rand_v i j) fy, 1))
                             (enumerate 0 row))
                       (enumerate 0 grid)
                  else map (map (\<lambda>(u, v).
                                (fdiv (u - cx + 1 / 2) fx, fdiv (v - cy + 1 / 2) fy, 1)))
                         grid);
               directions_out = (if flatten then Flat (concat directions) else Grid directions);
               grid_out = (if flatten then Flat (concat grid) else Grid grid)
           in (K1, Inr (directions_out, if return_uv then Some grid_out else None))))"

section \<open>Notions used to state the properties\<close>

text \<open>The alignment invariant of a gaussian set: the six tensors have one length.\<close>

definition aligned :: "gaussians \<Rightarrow> bool" where
  "aligned g =
     (length (features_dc g) = length (xyz g) \<and> length (features_rest g) = length (xyz g) \<and>
      length (scaling g) = length (xyz g) \<and> length (rotation g) = length (xyz g) \<and>
      length (opacity g) = length (xyz g))"

text \<open>The attribute tuple of every point, in order.\<close>

definition attribute_tuples ::
  "gaussians \<Rightarrow> (point \<times> real list \<times> real list \<times> real list \<times> real list \<times> real) list" where
  "attribute_tuples g =
     zip (xyz g) (zip (features_dc g) (zip (features_rest g)
       (zip (scaling g) (zip (rotation g) (opacity g)))))"

text \<open>
  A gaussian is covered in a view when its pixel lies inside the image bounds and the
  alpha mask is positive at that pixel.
\<close>

definition covered :: "projection \<Rightarrow> view \<Rightarrow> point \<Rightarrow> bool" where
  "covered project view p =
     (case project view p of (u, v) \<Rightarrow>
        valid_uv view u v \<and> alpha_mask view ! nat v ! nat u > 0)"

text \<open>The alpha mask has the shape \<open>[H, W]\<close> the source assumes.\<close>

definition mask_shape_ok :: "view \<Rightarrow> bool" where
  "mask_shape_ok view =
     (int (length (alpha_mask view)) = image_height view \<and>
      list_all (\<lambda>row. int (length row) = image_width view) (alpha_mask view))"

text \<open>The same test on a pixel coordinate already computed.\<close>

definition pixel_hit :: "view \<Rightarrow> int \<times> int \<Rightarrow> bool" where
  "pixel_hit view uv =
     (case uv of (u, v) \<Rightarrow> valid_uv view u v \<and> alpha_mask view ! nat v ! nat u > 0)"

text \<open>In how many of the views a gaussian is covered.\<close>

definition views_covering :: "projection \<Rightarrow> view list \<Rightarrow> point \<Rightarrow> nat" where
  "views_covering project views p = length (filter (\<lambda>view. covered project view p) views)"

text \<open>
  The closed-form direction of the ray through the centre of pixel \<open>(u, v)\<close> for
  intrinsics \<open>K\<close>: \<open>((u - cx + 0.5) / fx, (v - cy + 0.5) / fy, 1)\<close>.
\<close>

definition pixel_direction :: "mat3 \<Rightarrow> real \<Rightarrow> real \<Rightarrow> ray" where
  "pixel_direction K u v =
     (fdiv (u - m02 K + 1 / 2) (m00 K), fdiv (v - m12 K + 1 / 2) (m11 K), 1)"

section \<open>Concrete inputs\<close>

text \<open>
  A sequence of three frames. The prediction has two surface points per frame; the
  ground truth has two object points per frame, of which only the first is visible.
\<close>

definition ex_vertices :: "point list list" where
  "ex_vertices = [[(5, 0, 0), (7, 0, 0)], [(0, 0, 0), (2, 0, 0)], [(1, 0, 0), (3, 0, 0)]]"

definition ex_object_points :: "point list list" where
  "ex_object_points =
     [[(0, 0, 0), (9, 9, 9)], [(0, 0, 0), (9, 9, 9)], [(0, 0, 0), (9, 9, 9)]]"

definition ex_object_visibilities :: "bool list list" where
  "ex_object_visibilities = [[True, False], [True, False], [True, False]]"

definition ex_object_motions_valid :: "bool list list" where
  "ex_object_motions_valid = [[True, True], [True, True]]"

definition ex_case :: "int \<Rightarrow> int \<Rightarrow> case_files" where
  "ex_case train test =
     \<lparr>case_name = ''demo'', inference_vertices = ex_vertices,
      data_object_points = ex_object_points,
      data_object_visibilities = ex_object_visibilities,
      data_object_motions_valid = ex_object_motions_valid,
      data_surface_points = [], train_frame = train, test_frame = test\<rparr>"

text \<open>
  Three gaussians and a view of 2 by 2 pixels whose mask covers the pixel \<open>(0, 0)\<close> only.
  The stand-in projection divides by depth and takes the integer part.
\<close>

definition ex_gaussians :: gaussians where
  "ex_gaussians =
     \<lparr>xyz = [(0, 0, 1), (1, 0, 1), (5, 5, 1)],
      features_dc = [[1], [2], [3]],
      features_rest = [[], [], []],
      scaling = [[1, 1, 1], [2, 2, 2], [3, 3, 3]],
      rotation = [[1, 0, 0, 0], [0, 1, 0, 0], [0, 0, 1, 0]],
      opacity = [0, 2, - 3]\<rparr>"

definition ex_view :: view where
  "ex_view =
     \<lparr>image_height = 2, image_width = 2,
      cam_K = [[1, 0, 0], [0, 1, 0], [0, 0, 1]],
      cam_R = [[1, 0, 0], [0, 1, 0], [0, 0, 1]],
      cam_T = [0, 0, 0],
      alpha_mask = [[1, 0], [0, 0]]\<rparr>"

text \<open>A second view of the same size whose mask covers no pixel.\<close>

definition ex_view_blank :: view where
  "ex_view_blank = ex_view\<lparr>alpha_mask := [[0, 0], [0, 0]]\<rparr>"

definition ex_project :: projection where
  "ex_project view p = (case p of (x, y, z) \<Rightarrow> (\<lfloor>x / z\<rfloor>, \<lfloor>y / z\<rfloor>))"

text \<open>The first gaussian of the example alone, and the empty set it may be pruned to.\<close>

definition ex_single :: gaussians where
  "ex_single =
     \<lparr>xyz = [(0, 0, 1)], features_dc = [[1]], features_rest = [[]],
      scaling = [[1, 1, 1]], rotation = [[1, 0, 0, 0]], opacity = [0]\<rparr>"

definition ex_none :: gaussians where
  "ex_none =
     \<lparr>xyz = [], features_dc = [], features_rest = [], scaling = [], rotation = [],
      opacity = []\<rparr>"

text \<open>Intrinsics with focal length 2 and principal point \<open>(1, 1)\<close>.\<close>

definition ex_K :: mat3 where
  "ex_K = \<lparr>m00 = 2, m01 = 0, m02 = 1, m10 = 0, m11 = 2, m12 = 1, m20 = 0, m21 = 0, m22 = 1\<rparr>"

section \<open>Properties of evaluate\_chamfer.py\<close>

subsection \<open>Indexing and ranges\<close>

lemma py_index_cases: "py_index xs i = Inl IndexError \<or> (\<exists>x. py_index xs i = Inr x)"
  by (simp add: py_index_def Let_def)

lemma py_index_same_length:
  "length xs = length ys \<Longrightarrow> (py_index xs i = Inl IndexError) = (py_index ys i = Inl IndexError)"
  by (simp add: py_index_def Let_def)

lemma length_py_range: "length (py_range s e) = nat (e - s)"
  by (simp add: py_range_def)

lemma nth_py_range: "i < nat (e - s) \<Longrightarrow> py_range s e ! i = s + int i"
  by (simp add: py_range_def)

lemma py_range_unfold: "py_range s e = (if s < e then s # py_range (s + 1) e else [])"
  by (simp add: py_range_def upto.simps)

subsection \<open>The frame loop\<close>

text \<open>
  The loop returns a list exactly when every frame of the range yields a value, and it
  then appends those values, in order, to the list it started with.
\<close>

lemma frame_loop_Inr:
  "frame_loop V P VIS MV nsp fs acc = Inr out \<longleftrightarrow>
     (\<exists>es. out = acc @ es \<and> map (frame_chamfer V P VIS MV nsp) fs = map Inr es)"
proof (induction fs arbitrary: acc out)
  case Nil
  then show ?case by auto
next
  case (Cons f fs)
  show ?case
  proof (cases "frame_chamfer V P VIS MV nsp f")
    case (Inl e)
    then show ?thesis by auto
  next
    case (Inr c)
    show ?thesis
    proof
      assume "frame_loop V P VIS MV nsp (f # fs) acc = Inr out"
      with Inr Cons.IH obtain es where "out = (acc @ [c]) @ es"
        "map (frame_chamfer V P VIS MV nsp) fs = map Inr es" by auto
      then show "\<exists>es. out = acc @ es \<and> map (frame_chamfer V P VIS MV nsp) (f # fs) = map Inr es"
        using Inr by (intro exI[of _ "c # es"]) simp
    next
      assume "\<exists>es. out = acc @ es \<and> map (frame_chamfer V P VIS MV nsp) (f # fs) = map Inr es"
      then obtain es where es: "out = acc @ es"
        "map (frame_chamfer V P VIS MV nsp) (f # fs) = map Inr es" by blast
      then obtain es' where "es = c # es'" "map (frame_chamfer V P VIS MV nsp) fs = map Inr es'"
        using Inr by (cases es) auto
      with es Inr Cons.IH[of "acc @ [c]" out]
      show "frame_loop V P VIS MV nsp (f # fs) acc = Inr out"
        by auto
    qed
  qed
qed

lemma frame_loop_nth:
  assumes "frame_loop V P VIS MV nsp (py_range s e) [] = Inr es"
  shows "length es = nat (e - s)"
    and "i < length es \<Longrightarrow> frame_chamfer V P VIS MV nsp (s + int i) = Inr (es ! i)"
proof -
  from assms have m: "map (frame_chamfer V P VIS MV nsp) (py_range s e) = map Inr es"
    by (simp add: frame_loop_Inr)
  then show len: "length es = nat (e - s)"
    using length_py_range[of s e] by (metis length_map)
  assume i: "i < length es"
  have "map (frame_chamfer V P VIS MV nsp) (py_range s e) ! i = map Inr es ! i"
    using m by simp
  then show "frame_chamfer V P VIS MV nsp (s + int i) = Inr (es ! i)"
    using i len by (simp add: length_py_range nth_py_range)
qed

lemma frame_chamfer_motions_irrelevant:
  assumes "length MV = length MV'"
  shows "frame_chamfer V P VIS MV nsp f = frame_chamfer V P VIS MV' nsp f"
proof -
  from py_index_cases[of MV "f - 1"] py_index_cases[of MV' "f - 1"]
    py_index_same_length[OF assms, of "f - 1"]
  show ?thesis
    unfolding frame_chamfer_def by (auto split: sum.splits)
qed

lemma frame_loop_motions_irrelevant:
  assumes "length MV = length MV'"
  shows "frame_loop V P VIS MV nsp fs acc = frame_loop V P VIS MV' nsp fs acc"
  by (induction fs arbitrary: acc)
    (simp_all add: frame_chamfer_motions_irrelevant[OF assms] split: sum.splits)

subsection \<open>The frames of the running example\<close>

lemma ex_frame_chamfer_1:
  "frame_chamfer ex_vertices ex_object_points ex_object_visibilities
     ex_object_motions_valid 2 1 = Inr 0"
  by (simp add: frame_chamfer_def py_index_def ex_vertices_def ex_object_points_def
      ex_object_visibilities_def ex_object_motions_valid_def bool_index_def slice_to_def
      chamfer_distance_def l1_dist_def)

lemma ex_frame_chamfer_2:
  "frame_chamfer ex_vertices ex_object_points ex_object_visibilities
     ex_object_motions_valid 2 2 = Inr 1"
  by (simp add: frame_chamfer_def py_index_def ex_vertices_def ex_object_points_def
      ex_object_visibilities_def ex_object_motions_valid_def bool_index_def slice_to_def
      chamfer_distance_def l1_dist_def)

lemma ex_evaluate_prediction:
  "evaluate_prediction 1 3 ex_vertices ex_object_points ex_object_visibilities
     ex_object_motions_valid 2 2 = Inr \<lparr>frame_len = 2, chamfer_error = Finite (1 / 2)\<rparr>"
  by (simp add: evaluate_prediction_def py_range_unfold ex_frame_chamfer_1 ex_frame_chamfer_2
      np_mean_def)

subsection \<open>Mean and count\<close>

text \<open>
  Claim C4. For a non-empty frame range, whenever \<open>evaluate_prediction\<close> returns, the
  reported \<open>frame_len\<close> is \<open>end_frame - start_frame\<close>, the loop has accumulated one
  Chamfer value per frame of the range, in order, and the reported \<open>chamfer_error\<close> is
  their arithmetic mean.
\<close>

theorem evaluate_prediction_mean:
  assumes "start_frame < end_frame"
    and "evaluate_prediction start_frame end_frame V P VIS MV nop nsp = Inr r"
  shows "frame_len r = nat (end_frame - start_frame) \<and>
     (\<exists>es. length es = nat (end_frame - start_frame) \<and>
        (\<forall>i<length es. frame_chamfer V P VIS MV nsp (start_frame + int i) = Inr (es ! i)) \<and>
        chamfer_error r = Finite (sum_list es / real (length es)))"
proof -
  from assms(2) obtain es where
    loop: "frame_loop V P VIS MV nsp (py_range start_frame end_frame) [] = Inr es"
    and r: "r = \<lparr>frame_len = length es, chamfer_error = np_mean es\<rparr>"
    by (auto simp: evaluate_prediction_def split: sum.splits)
  note len = frame_loop_nth(1)[OF loop] and nth = frame_loop_nth(2)[OF loop]
  from assms(1) len have "es \<noteq> []" by auto
  then have "np_mean es = Finite (sum_list es / real (length es))"
    by (simp add: np_mean_def)
  with r len nth show ?thesis by auto
qed

theorem evaluate_prediction_mean_witness:
  "(1::int) < 3 \<and>
   evaluate_prediction 1 3 ex_vertices ex_object_points ex_object_visibilities
     ex_object_motions_valid 2 2 = Inr \<lparr>frame_len = 2, chamfer_error = Finite (1 / 2)\<rparr> \<and>
   frame_len \<lparr>frame_len = 2, chamfer_error = Finite (1 / 2)\<rparr> = nat (3 - 1) \<and>
   (\<exists>es. length es = nat (3 - 1) \<and>
      (\<forall>i<length es. frame_chamfer ex_vertices ex_object_points ex_object_visibilities
          ex_object_motions_valid 2 (1 + int i) = Inr (es ! i)) \<and>
      chamfer_error \<lparr>frame_len = 2, chamfer_error = Finite (1 / 2)\<rparr> =
        Finite (sum_list es / real (length es)))"
proof -
  have lt: "(1::int) < 3" by simp
  show ?thesis
    using lt ex_evaluate_prediction evaluate_prediction_mean[OF lt ex_evaluate_prediction]
    by blast
qed

text \<open>
  The call returns whenever every frame of the range, and the frame before it, exists
  in the arrays and each visibility mask is as long as its frame's point list.
\<close>

lemma evaluate_prediction_returns:
  assumes "1 \<le> start_frame"
    and "end_frame \<le> int (length V)" and "end_frame \<le> int (length P)"
    and "end_frame \<le> int (length VIS)" and "end_frame - 1 \<le> int (length MV)"
    and "\<And>f. start_frame \<le> f \<Longrightarrow> f < end_frame \<Longrightarrow> length (VIS ! nat f) = length (P ! nat f)"
  shows "\<exists>r. evaluate_prediction start_frame end_frame V P VIS MV nop nsp = Inr r"
proof -
  have fc: "\<exists>c. frame_chamfer V P VIS MV nsp f = Inr c"
    if "start_frame \<le> f" "f < end_frame" for f
    using that assms by (simp add: frame_chamfer_def py_index_def bool_index_def Let_def)
  have "\<exists>out. frame_loop V P VIS MV nsp fs acc = Inr out"
    if "\<And>f. f \<in> set fs \<Longrightarrow> start_frame \<le> f \<and> f < end_frame" for fs acc
    using that
  proof (induction fs arbitrary: acc)
    case Nil
    then show ?case by simp
  next
    case (Cons f fs)
    from Cons.prems[of f] fc[of f] obtain c where "frame_chamfer V P VIS MV nsp f = Inr c"
      by auto
    moreover from Cons.IH[of "acc @ [c]"] Cons.prems
    have "\<exists>out. frame_loop V P VIS MV nsp fs (acc @ [c]) = Inr out" by simp
    ultimately show ?case by simp
  qed
  from this[of "py_range start_frame end_frame" "[]"]
  obtain out where "frame_loop V P VIS MV nsp (py_range start_frame end_frame) [] = Inr out"
    by (auto simp: py_range_def)
  then show ?thesis by (simp add: evaluate_prediction_def)
qed

subsection \<open>Independence of the motion-validity flags\<close>

text \<open>
  Claim C10. Two calls of \<open>evaluate_prediction\<close> that differ only in the contents of
  \<open>object_motions_valid\<close>, the number of frames it holds being the same, return the same
  result: the flags are indexed, and their values are never used.
\<close>

theorem evaluate_prediction_ignores_motion_flags:
  assumes "length MV = length MV'"
  shows "evaluate_prediction s e V P VIS MV nop nsp = evaluate_prediction s e V P VIS MV' nop nsp"
  by (simp add: evaluate_prediction_def frame_loop_motions_irrelevant[OF assms])

theorem evaluate_prediction_ignores_motion_flags_witness:
  "length ex_object_motions_valid = length [[False, False], [False, True]] \<and>
   evaluate_prediction 1 3 ex_vertices ex_object_points ex_object_visibilities
     [[False, False], [False, True]] 2 2 = Inr \<lparr>frame_len = 2, chamfer_error = Finite (1 / 2)\<rparr>"
proof -
  have len: "length ex_object_motions_valid = length [[False, False], [False, True]]"
    by (simp add: ex_object_motions_valid_def)
  show ?thesis
    using len evaluate_prediction_ignores_motion_flags[OF len, of 1 3 ex_vertices
        ex_object_points ex_object_visibilities 2 2] ex_evaluate_prediction
    by simp
qed

subsection \<open>Which direction the Chamfer distance measures\<close>

lemma fold_keep_smaller:
  fixes f :: "'a \<Rightarrow> real"
  shows "fold (\<lambda>q best. if f q < best then f q else best) qs b = Min (insert b (f ` set qs))"
proof (induction qs arbitrary: b)
  case Nil
  then show ?case by simp
next
  case (Cons q qs)
  have "Min (insert (if f q < b then f q else b) (f ` set qs)) =
        Min (insert b (insert (f q) (f ` set qs)))"
  proof (cases "f ` set qs = {}")
    case True
    then show ?thesis by (auto simp: min_def)
  next
    case False
    then show ?thesis by (auto simp: min_def)
  qed
  with Cons show ?case by simp
qed

lemma knn_dist_Min: "ys \<noteq> [] \<Longrightarrow> knn_dist p ys = Min ((\<lambda>q. l1_dist p q) ` set ys)"
  by (cases ys) (simp_all add: fold_keep_smaller)

text \<open>
  On non-empty point sets the library call is the one-directional L1 Chamfer distance
  from its first argument to its second.
\<close>

lemma chamfer_distance_one_way:
  assumes "x \<noteq> []" "y \<noteq> []"
  shows "chamfer_distance x y = one_way_l1_chamfer x y"
proof -
  have nn: "map (\<lambda>p. knn_dist p y) x = map (\<lambda>p. Min ((\<lambda>q. l1_dist p q) ` set y)) x"
    using assms(2) by (simp add: knn_dist_Min)
  have len: "max (length x) 1 = length x" using assms(1) by (cases x) auto
  show ?thesis
    unfolding chamfer_distance_def one_way_l1_chamfer_def Let_def nn len by simp
qed

lemma frame_chamfer_Inr:
  assumes "frame_chamfer V P VIS MV nsp f = Inr c"
  shows "\<exists>x pts vis. py_index V f = Inr x \<and> py_index P f = Inr pts \<and>
      py_index VIS f = Inr vis \<and> length vis = length pts \<and>
      c = chamfer_distance (masked pts vis) (slice_to x nsp)"
  using assms
  by (auto simp: frame_chamfer_def bool_index_def Let_def split: sum.splits if_splits)

text \<open>
  Claim C1, as the code has it. For every frame of the evaluated range, the value the
  loop of \<open>evaluate_prediction\<close> accumulates is the one-directional L1 Chamfer distance
  FROM the ground-truth object points marked visible in that frame TO the predicted
  surface points (the first \<open>num_surface_points\<close> predicted vertices of that frame),
  both sets being non-empty: the source passes the ground-truth points as the first
  argument of \<open>chamfer_distance\<close>, and that is the side whose points are each matched to
  a nearest neighbour.
\<close>

theorem per_frame_chamfer_direction:
  assumes "frame_loop V P VIS MV nsp (py_range start_frame end_frame) [] = Inr es"
    and "i < length es"
  shows "\<exists>x pts vis.
      py_index V (start_frame + int i) = Inr x \<and>
      py_index P (start_frame + int i) = Inr pts \<and>
      py_index VIS (start_frame + int i) = Inr vis \<and>
      (masked pts vis \<noteq> [] \<and> slice_to x nsp \<noteq> [] \<longrightarrow>
         es ! i = one_way_l1_chamfer (masked pts vis) (slice_to x nsp))"
proof -
  from frame_loop_nth(2)[OF assms]
  have "frame_chamfer V P VIS MV nsp (start_frame + int i) = Inr (es ! i)" .
  from frame_chamfer_Inr[OF this] obtain x pts vis where
    h: "py_index V (start_frame + int i) = Inr x" "py_index P (start_frame + int i) = Inr pts"
      "py_index VIS (start_frame + int i) = Inr vis"
      "es ! i = chamfer_distance (masked pts vis) (slice_to x nsp)"
    by blast
  then show ?thesis by (auto simp: chamfer_distance_one_way)
qed

lemma ex_frame_loop:
  "frame_loop ex_vertices ex_object_points ex_object_visibilities ex_object_motions_valid 2
     (py_range 1 3) [] = Inr [0, 1]"
  by (simp add: py_range_unfold ex_frame_chamfer_1 ex_frame_chamfer_2)

theorem per_frame_chamfer_direction_witness:
  "frame_loop ex_vertices ex_object_points ex_object_visibilities ex_object_motions_valid 2
     (py_range 1 3) [] = Inr [0, 1] \<and>
   (1::nat) < length [0, 1::real] \<and>
   [0, 1::real] ! 1 = one_way_l1_chamfer [(0, 0, 0)] [(1, 0, 0), (3, 0, 0)]"
proof -
  have i: "(1::nat) < length [0, 1::real]" by simp
  from per_frame_chamfer_direction[OF ex_frame_loop i] obtain x pts vis where
    h: "py_index ex_vertices (1 + int 1) = Inr x"
      "py_index ex_object_points (1 + int 1) = Inr pts"
      "py_index ex_object_visibilities (1 + int 1) = Inr vis"
      "masked pts vis \<noteq> [] \<and> slice_to x 2 \<noteq> [] \<longrightarrow>
         [0, 1::real] ! 1 = one_way_l1_chamfer (masked pts vis) (slice_to x 2)"
    by blast
  from h(1) have x: "x = [(1, 0, 0), (3, 0, 0)]"
    by (simp add: py_index_def ex_vertices_def)
  from h(2) have pts: "pts = [(0, 0, 0), (9, 9, 9)]"
    by (simp add: py_index_def ex_object_points_def)
  from h(3) have vis: "vis = [True, False]"
    by (simp add: py_index_def ex_object_visibilities_def)
  from h(4) have "[0, 1::real] ! 1 = one_way_l1_chamfer [(0, 0, 0)] [(1, 0, 0), (3, 0, 0)]"
    unfolding x pts vis by (simp add: slice_to_def)
  with ex_frame_loop i show ?thesis by blast
qed

text \<open>
  The claim as stated, with the predicted points as the measured side, fails on frame 1
  of the example: the code yields 0 (the visible ground-truth point coincides with a
  predicted point), while the distance from the two predicted points to the visible
  ground-truth point is 1.
\<close>

theorem per_frame_chamfer_direction_counterexample:
  "frame_chamfer ex_vertices ex_object_points ex_object_visibilities
     ex_object_motions_valid 2 1 = Inr 0 \<and>
   one_way_l1_chamfer (slice_to (ex_vertices ! 1) 2)
     (masked (ex_object_points ! 1) (ex_object_visibilities ! 1)) = 1 \<and>
   one_way_l1_chamfer (masked (ex_object_points ! 1) (ex_object_visibilities ! 1))
     (slice_to (ex_vertices ! 1) 2) = 0"
proof -
  have "one_way_l1_chamfer (slice_to (ex_vertices ! 1) 2)
     (masked (ex_object_points ! 1) (ex_object_visibilities ! 1)) = 1"
    by (simp add: one_way_l1_chamfer_def l1_dist_def slice_to_def
        ex_vertices_def ex_object_points_def ex_object_visibilities_def)
  moreover have "one_way_l1_chamfer
     (masked (ex_object_points ! 1) (ex_object_visibilities ! 1))
     (slice_to (ex_vertices ! 1) 2) = 0"
    by (simp add: one_way_l1_chamfer_def l1_dist_def slice_to_def
        ex_vertices_def ex_object_points_def ex_object_visibilities_def)
  ultimately show ?thesis using ex_frame_chamfer_1 by blast
qed

subsection \<open>The frame-count assertion\<close>

lemma frame_chamfer_error: "frame_chamfer V P VIS MV nsp f = Inl e \<Longrightarrow> e = IndexError"
  by (auto simp: frame_chamfer_def py_index_def bool_index_def Let_def
      split: sum.splits if_splits)

lemma frame_loop_error: "frame_loop V P VIS MV nsp fs acc = Inl e \<Longrightarrow> e = IndexError"
  by (induction fs arbitrary: acc) (auto split: sum.splits dest: frame_chamfer_error)

lemma evaluate_prediction_error:
  "evaluate_prediction s e V P VIS MV nop nsp = Inl err \<Longrightarrow> err = IndexError"
  by (auto simp: evaluate_prediction_def split: sum.splits dest: frame_loop_error)

text \<open>
  Claim C9. Processing a case raises AssertionError exactly when the test split's frame
  number differs from the number of predicted frames. The assertion precedes both
  evaluations, so on a mismatch no frame of the case is evaluated, and on a match any
  exception that does occur is not an AssertionError.
\<close>

theorem frame_count_mismatch_asserts:
  "(process_case c = Inl AssertionError) =
   (test_frame c \<noteq> int (length (inference_vertices c)))"
  by (auto simp: process_case_def Let_def split: sum.splits dest: evaluate_prediction_error)

theorem frame_count_mismatch_asserts_witness:
  "process_case (ex_case 2 5) = Inl AssertionError \<and>
   test_frame (ex_case 2 5) \<noteq> int (length (inference_vertices (ex_case 2 5))) \<and>
   process_case (ex_case 2 3) \<noteq> Inl AssertionError \<and>
   test_frame (ex_case 2 3) = int (length (inference_vertices (ex_case 2 3)))"
proof -
  have a: "test_frame (ex_case 2 5) \<noteq> int (length (inference_vertices (ex_case 2 5)))"
    by (simp add: ex_case_def ex_vertices_def)
  have b: "test_frame (ex_case 2 3) = int (length (inference_vertices (ex_case 2 3)))"
    by (simp add: ex_case_def ex_vertices_def)
  from a b frame_count_mismatch_asserts[of "ex_case 2 5"]
    frame_count_mismatch_asserts[of "ex_case 2 3"]
  show ?thesis by blast
qed

text \<open>In the run over all cases, a mismatch in the first case not yet processed ends
  the run with AssertionError.\<close>

lemma main_loop_aborts:
  "test_frame c \<noteq> int (length (inference_vertices c)) \<Longrightarrow>
   main_loop (c # cs) rows = Inl AssertionError"
  by (simp add: process_case_def Let_def)

subsection \<open>Frame 0\<close>

lemma py_index_update0: "1 \<le> f \<Longrightarrow> py_index (xs[0 := a]) f = py_index xs f"
  by (auto simp: py_index_def)

lemma frame_chamfer_frame0:
  assumes "1 \<le> f"
  shows "frame_chamfer (V[0 := v0]) (P[0 := p0]) (VIS[0 := m0]) MV nsp f =
         frame_chamfer V P VIS MV nsp f"
  using assms by (simp add: frame_chamfer_def py_index_update0 cong: sum.case_cong)

lemma frame_loop_frame0:
  assumes "\<And>f. f \<in> set fs \<Longrightarrow> 1 \<le> f"
  shows "frame_loop (V[0 := v0]) (P[0 := p0]) (VIS[0 := m0]) MV nsp fs acc =
         frame_loop V P VIS MV nsp fs acc"
  using assms
  by (induction fs arbitrary: acc) (simp_all add: frame_chamfer_frame0 cong: sum.case_cong)

text \<open>
  A call of \<open>evaluate_prediction\<close> whose range starts at frame 1 or later does not depend
  on what the arrays hold for frame 0.
\<close>

lemma evaluate_prediction_frame0:
  assumes "1 \<le> s"
  shows "evaluate_prediction s e (V[0 := v0]) (P[0 := p0]) (VIS[0 := m0]) MV nop nsp =
         evaluate_prediction s e V P VIS MV nop nsp"
proof -
  have "\<And>f. f \<in> set (py_range s e) \<Longrightarrow> 1 \<le> f"
    using assms by (auto simp: py_range_def)
  from frame_loop_frame0[OF this] show ?thesis
    by (simp add: evaluate_prediction_def)
qed

lemma shape1_update0: "length p0 = shape1 P \<Longrightarrow> shape1 (P[0 := p0]) = shape1 P"
  by (cases P) (simp_all add: shape1_def)

text \<open>
  Claim C8, as the code has it. The train split is always evaluated from frame 1, and
  the test split from \<open>train_frame\<close>. So when the case's \<open>train_frame\<close> is at least 1,
  every frame index either evaluation iterates over is at least 1, and the row the case
  reports is the same whatever frame 0 holds: replacing the predicted vertices, the
  object points (by as many points, the array being rectangular) and the visibility mask
  of frame 0 changes neither a mean nor a count.
\<close>

theorem frame0_never_evaluated:
  assumes "1 \<le> train_frame c" and "length p0 = shape1 (data_object_points c)"
  shows "(\<forall>f \<in> set (py_range 1 (train_frame c)) \<union>
               set (py_range (train_frame c) (test_frame c)). 1 \<le> f) \<and>
    process_case (c\<lparr>inference_vertices := (inference_vertices c)[0 := v0],
                    data_object_points := (data_object_points c)[0 := p0],
                    data_object_visibilities := (data_object_visibilities c)[0 := m0]\<rparr>)
     = process_case c"
proof -
  have "\<forall>f \<in> set (py_range 1 (train_frame c)) \<union>
              set (py_range (train_frame c) (test_frame c)). 1 \<le> f"
    using assms(1) by (auto simp: py_range_def)
  moreover have "process_case (c\<lparr>inference_vertices := (inference_vertices c)[0 := v0],
                    data_object_points := (data_object_points c)[0 := p0],
                    data_object_visibilities := (data_object_visibilities c)[0 := m0]\<rparr>)
     = process_case c"
    using assms
    by (simp add: process_case_def Let_def shape1_update0 evaluate_prediction_frame0
        cong: sum.case_cong)
  ultimately show ?thesis by blast
qed

lemma ex_shape1: "shape1 ex_object_points = 2"
  by (simp add: shape1_def ex_object_points_def)

lemma ex_length_vertices: "length ex_vertices = 3"
  by (simp add: ex_vertices_def)

theorem frame0_never_evaluated_witness:
  "1 \<le> train_frame (ex_case 2 3) \<and>
   length [(1, 1, 1), (2, 2, 2) :: point] = shape1 (data_object_points (ex_case 2 3)) \<and>
   process_case ((ex_case 2 3)
       \<lparr>inference_vertices := (inference_vertices (ex_case 2 3))[0 := [(0, 0, 0), (2, 0, 0)]],
        data_object_points := (data_object_points (ex_case 2 3))[0 := [(1, 1, 1), (2, 2, 2)]],
        data_object_visibilities :=
          (data_object_visibilities (ex_case 2 3))[0 := [False, True]]\<rparr>)
     = process_case (ex_case 2 3)"
proof -
  have a: "1 \<le> train_frame (ex_case 2 3)"
    by (simp add: ex_case_def)
  have b: "length [(1, 1, 1), (2, 2, 2) :: point] = shape1 (data_object_points (ex_case 2 3))"
    by (simp add: ex_case_def ex_shape1)
  from a b frame0_never_evaluated[OF a b, where ?v0.0 = "[(0, 0, 0), (2, 0, 0)]"
      and ?m0.0 = "[False, True]"]
  show ?thesis by blast
qed

lemma ex_frame_chamfer_0:
  "frame_chamfer ex_vertices ex_object_points ex_object_visibilities
     ex_object_motions_valid 2 0 = Inr 5"
  by (simp add: frame_chamfer_def py_index_def ex_vertices_def ex_object_points_def
      ex_object_visibilities_def ex_object_motions_valid_def bool_index_def slice_to_def
      chamfer_distance_def l1_dist_def)

lemma ex_changed_frame_chamfer:
  "frame_chamfer (ex_vertices[0 := [(0, 0, 0), (2, 0, 0)]]) ex_object_points
     ex_object_visibilities ex_object_motions_valid 2 0 = Inr 0"
  "frame_chamfer (ex_vertices[0 := [(0, 0, 0), (2, 0, 0)]]) ex_object_points
     ex_object_visibilities ex_object_motions_valid 2 1 = Inr 0"
  "frame_chamfer (ex_vertices[0 := [(0, 0, 0), (2, 0, 0)]]) ex_object_points
     ex_object_visibilities ex_object_motions_valid 2 2 = Inr 1"
  by (simp_all add: frame_chamfer_def py_index_def ex_vertices_def ex_object_points_def
      ex_object_visibilities_def ex_object_motions_valid_def bool_index_def slice_to_def
      chamfer_distance_def l1_dist_def)

text \<open>
  The claim as stated fails for a case whose \<open>train_frame\<close> is 0: the train range is
  empty (count 0, mean NaN), the test range is \<open>[0, 1, 2]\<close>, and the reported test mean
  changes from 2 to 1/3 when only the predicted vertices of frame 0 change.
\<close>

theorem frame0_never_evaluated_counterexample:
  "train_frame (ex_case 0 3) = 0 \<and>
   py_range (train_frame (ex_case 0 3)) (test_frame (ex_case 0 3)) = [0, 1, 2] \<and>
   process_case (ex_case 0 3) = Inr (''demo'', 0, NaN, 3, Finite 2) \<and>
   process_case ((ex_case 0 3)
       \<lparr>inference_vertices := (inference_vertices (ex_case 0 3))[0 := [(0, 0, 0), (2, 0, 0)]]\<rparr>)
     = Inr (''demo'', 0, NaN, 3, Finite (1 / 3))"
proof -
  have "process_case (ex_case 0 3) = Inr (''demo'', 0, NaN, 3, Finite 2)"
    by (simp add: process_case_def ex_case_def ex_shape1 ex_length_vertices
        evaluate_prediction_def py_range_unfold ex_frame_chamfer_0 ex_frame_chamfer_1
        ex_frame_chamfer_2 np_mean_def)
  moreover have "process_case ((ex_case 0 3)
       \<lparr>inference_vertices := (inference_vertices (ex_case 0 3))[0 := [(0, 0, 0), (2, 0, 0)]]\<rparr>)
     = Inr (''demo'', 0, NaN, 3, Finite (1 / 3))"
    by (simp add: process_case_def ex_case_def ex_shape1 ex_length_vertices
        evaluate_prediction_def py_range_unfold ex_changed_frame_chamfer np_mean_def)
  moreover have "py_range (train_frame (ex_case 0 3)) (test_frame (ex_case 0 3)) = [0, 1, 2]"
    by (simp add: ex_case_def py_range_unfold)
  moreover have "train_frame (ex_case 0 3) = 0"
    by (simp add: ex_case_def)
  ultimately show ?thesis by blast
qed

section \<open>Properties of gs\_render.py\<close>

subsection \<open>Boolean-mask selection\<close>

lemma length_masked:
  "length xs = length bs \<Longrightarrow> length (masked xs bs) = length (filter (\<lambda>b. b) bs)"
  by (induction xs bs rule: list_induct2) simp_all

lemma masked_zip:
  "length xs = length ys \<Longrightarrow> masked (zip xs ys) bs = zip (masked xs bs) (masked ys bs)"
proof (induction bs arbitrary: xs ys)
  case Nil
  then show ?case by (cases xs; cases ys) simp_all
next
  case (Cons b bs)
  then show ?case by (cases xs; cases ys) simp_all
qed

lemma masked_map_filter: "masked xs (map P xs) = filter P xs"
  by (induction xs) simp_all

lemma masked_fst_filter: "masked ts (map P (map fst ts)) = filter (\<lambda>t. P (fst t)) ts"
  using masked_map_filter[of ts "\<lambda>t. P (fst t)"] by (simp add: comp_def)

lemma map_fst_attribute_tuples: "aligned g \<Longrightarrow> map fst (attribute_tuples g) = xyz g"
  by (simp add: aligned_def attribute_tuples_def)

lemma select_gaussians_aligned:
  assumes "aligned g" and "length m = length (xyz g)"
  shows "\<exists>g'. select_gaussians g m = Inr g' \<and> aligned g' \<and>
           attribute_tuples g' = masked (attribute_tuples g) m"
proof -
  let ?g' = "g\<lparr>xyz := masked (xyz g) m, features_dc := masked (features_dc g) m,
               features_rest := masked (features_rest g) m, scaling := masked (scaling g) m,
               rotation := masked (rotation g) m, opacity := masked (opacity g) m\<rparr>"
  from assms have sel: "select_gaussians g m = Inr ?g'"
    by (simp add: select_gaussians_def bool_index_def aligned_def)
  from assms have al: "aligned ?g'"
    by (simp add: aligned_def length_masked)
  from assms have "attribute_tuples ?g' = masked (attribute_tuples g) m"
    by (simp add: attribute_tuples_def aligned_def masked_zip)
  with sel al show ?thesis by blast
qed

subsection \<open>The ball query\<close>

lemma ball_query_scan_hit:
  "(ball_query_scan inside r p qs j \<noteq> - 1) = (\<exists>q\<in>set qs. inside p q r)"
  by (induction qs arbitrary: j) auto

subsection \<open>The visibility counter\<close>

lemma mask_at_valid:
  assumes "mask_shape_ok view" "valid_uv view u v"
  shows "mask_at (alpha_mask view) v u = Inr (alpha_mask view ! nat v ! nat u)"
proof -
  from assms have v: "0 \<le> v" "v < int (length (alpha_mask view))"
    by (simp_all add: mask_shape_ok_def valid_uv_def)
  then have "alpha_mask view ! nat v \<in> set (alpha_mask view)" by simp
  with assms(1) have "int (length (alpha_mask view ! nat v)) = image_width view"
    by (simp add: mask_shape_ok_def list_all_iff)
  with assms(2) have u: "0 \<le> u" "u < int (length (alpha_mask view ! nat v))"
    by (simp_all add: valid_uv_def)
  from v u show ?thesis by (simp add: mask_at_def py_index_def)
qed

lemma pixel_loop_prefix:
  assumes "mask_shape_ok view" "length cs = length uvs"
  shows "pixel_loop view (enumerate (length pre) uvs) (pre @ cs) =
         Inr (pre @ map2 (\<lambda>uv c. if pixel_hit view uv then c + 1 else c) uvs cs)"
  using assms(2)
proof (induction uvs arbitrary: pre cs)
  case Nil
  then show ?case by simp
next
  case (Cons uv uvs)
  then obtain c cs' where cs: "cs = c # cs'" "length cs' = length uvs" by (cases cs) auto
  obtain u v where uv: "uv = (u, v)" by (cases uv)
  let ?c' = "if pixel_hit view uv then c + 1 else c"
  have step: "pixel_loop view (enumerate (length pre) (uv # uvs)) (pre @ cs) =
        pixel_loop view (enumerate (length (pre @ [?c'])) uvs) ((pre @ [?c']) @ cs')"
    using mask_at_valid[OF assms(1), of u v]
    by (auto simp: uv cs pixel_hit_def)
  show ?case
    unfolding step Cons.IH[OF cs(2), of "pre @ [?c']"] by (simp add: cs)
qed

lemma pixel_loop_view:
  assumes "mask_shape_ok view" "length counter = length pts"
  shows "pixel_loop view (enumerate 0 (map (project view) pts)) counter =
         Inr (map2 (\<lambda>p c. if covered project view p then c + 1 else c) pts counter)"
proof -
  have "map2 (\<lambda>uv c. if pixel_hit view uv then c + 1 else c) (map (project view) pts) counter
      = map2 (\<lambda>p c. if covered project view p then c + 1 else c) pts counter"
    by (simp add: zip_map1 pixel_hit_def covered_def split_def)
  with pixel_loop_prefix[OF assms(1), of counter "map (project view) pts" "[]"] assms(2)
  show ?thesis by simp
qed

lemma view_loop_counts:
  assumes "list_all mask_shape_ok views" "length counter = length pts"
  shows "view_loop project views pts counter =
         Inr (map2 (\<lambda>p c. c + int (views_covering project views p)) pts counter)"
  using assms
proof (induction views arbitrary: counter)
  case Nil
  then show ?case by (simp add: views_covering_def) (intro nth_equalityI, simp_all)
next
  case (Cons view views)
  let ?c' = "map2 (\<lambda>p c. if covered project view p then c + 1 else c) pts counter"
  from Cons.prems have ok: "mask_shape_ok view" "list_all mask_shape_ok views" by simp_all
  have len: "length ?c' = length pts" using Cons.prems(2) by simp
  have "map2 (\<lambda>p c. c + int (views_covering project views p)) pts ?c' =
        map2 (\<lambda>p c. c + int (views_covering project (view # views) p)) pts counter"
    using Cons.prems(2) by (intro nth_equalityI) (simp_all add: views_covering_def)
  then show ?case
    using pixel_loop_view[OF ok(1) Cons.prems(2), of project] Cons.IH[OF ok(2) len]
    by simp
qed

lemma length_filter_all: "(length (filter P xs) = length xs) = (\<forall>x\<in>set xs. P x)"
proof (induction xs)
  case Nil
  then show ?case by simp
next
  case (Cons a xs)
  have ne: "length (filter P xs) \<noteq> Suc (length xs)"
    using length_filter_le[of P xs] by linarith
  show ?case using Cons ne by (cases "P a") auto
qed

lemma all_views_iff:
  "(real_of_int (int (length (filter P xs))) \<ge> real (length xs) * VIEW_THRESHOLD) = (\<forall>x\<in>set xs. P x)"
proof -
  have "(length xs \<le> length (filter P xs)) = (length (filter P xs) = length xs)"
    using length_filter_le[of P xs] by linarith
  then show ?thesis
    by (simp add: VIEW_THRESHOLD_def length_filter_all)
qed

lemma pixel_loop_length:
  "pixel_loop view ps counter = Inr out \<Longrightarrow> length out = length counter"
  by (induction view ps counter rule: pixel_loop.induct)
    (auto split: if_splits sum.splits)

lemma view_loop_length:
  "view_loop project views pts counter = Inr out \<Longrightarrow> length out = length counter"
  by (induction views arbitrary: counter)
    (auto simp: Let_def split: sum.splits dest: pixel_loop_length)

lemma ex_aligned: "aligned ex_gaussians"
  by (simp add: aligned_def ex_gaussians_def)

lemma ex_views_ok: "list_all mask_shape_ok [ex_view]"
  by (simp add: mask_shape_ok_def ex_view_def)

lemma ex_remove_with_mask:
  "remove_gaussians_with_mask ex_project ex_gaussians [ex_view] = Inr ex_single"
  by (simp add: remove_gaussians_with_mask_def ex_gaussians_def ex_project_def ex_view_def
      valid_uv_def mask_at_def py_index_def VIEW_THRESHOLD_def select_gaussians_def
      bool_index_def ex_single_def)

subsection \<open>Visibility pruning\<close>

text \<open>
  Claim C2. Let every view's alpha mask have the shape \<open>[H, W]\<close> of its image, and let
  the gaussian set be aligned. Then (1) the pass over one view adds 1 to a gaussian's
  counter exactly when its pixel coordinate lies inside the image bounds and the mask is
  positive there, and leaves the counter unchanged otherwise; (2) after all views the
  counter of a gaussian is the number of views covering it; (3) the call returns, and
  the surviving attribute tuples are exactly those whose counter is at least
  \<open>len(views) * VIEW_THRESHOLD\<close>; (4) \<open>VIEW_THRESHOLD\<close> is the constant 1.0 written in
  the function body and no argument of the function, so for every input the survivors
  are exactly the gaussians covered in all views.
\<close>

theorem visibility_pruning_rule:
  assumes "list_all mask_shape_ok views" and "aligned g"
  shows "(\<forall>view\<in>set views. \<forall>counter. length counter = length (xyz g) \<longrightarrow>
            pixel_loop view (enumerate 0 (map (project view) (xyz g))) counter =
              Inr (map2 (\<lambda>p c. if covered project view p then c + 1 else c) (xyz g) counter)) \<and>
         view_loop project views (xyz g) (replicate (length (xyz g)) 0) =
           Inr (map (\<lambda>p. int (views_covering project views p)) (xyz g)) \<and>
         VIEW_THRESHOLD = 1 \<and>
         (\<exists>g'. remove_gaussians_with_mask project g views = Inr g' \<and>
            attribute_tuples g' =
              filter (\<lambda>t. real (views_covering project views (fst t))
                             \<ge> real (length views) * VIEW_THRESHOLD) (attribute_tuples g) \<and>
            attribute_tuples g' =
              filter (\<lambda>t. \<forall>view\<in>set views. covered project view (fst t)) (attribute_tuples g))"
proof -
  let ?n = "length (xyz g)"
  let ?keep = "\<lambda>p. real_of_int (int (views_covering project views p))
                      \<ge> real (length views) * VIEW_THRESHOLD"
  have per_view: "\<forall>view\<in>set views. \<forall>counter. length counter = ?n \<longrightarrow>
            pixel_loop view (enumerate 0 (map (project view) (xyz g))) counter =
              Inr (map2 (\<lambda>p c. if covered project view p then c + 1 else c) (xyz g) counter)"
    using assms(1) by (auto simp: list_all_iff intro: pixel_loop_view)
  have "map2 (\<lambda>p c. c + int (views_covering project views p)) (xyz g) (replicate ?n 0) =
        map (\<lambda>p. int (views_covering project views p)) (xyz g)"
    by (intro nth_equalityI) simp_all
  with view_loop_counts[OF assms(1), of "replicate ?n 0" "xyz g" project]
  have counts: "view_loop project views (xyz g) (replicate ?n 0) =
           Inr (map (\<lambda>p. int (views_covering project views p)) (xyz g))"
    by simp
  then have rm: "remove_gaussians_with_mask project g views = select_gaussians g (map ?keep (xyz g))"
    by (simp add: remove_gaussians_with_mask_def Let_def comp_def)
  from select_gaussians_aligned[OF assms(2), of "map ?keep (xyz g)"] obtain g' where
    g': "select_gaussians g (map ?keep (xyz g)) = Inr g'"
      "attribute_tuples g' = masked (attribute_tuples g) (map ?keep (xyz g))"
    by auto
  have "masked (attribute_tuples g) (map ?keep (xyz g)) =
        filter (\<lambda>t. ?keep (fst t)) (attribute_tuples g)"
    using masked_fst_filter[of "attribute_tuples g" ?keep] map_fst_attribute_tuples[OF assms(2)]
    by simp
  with g'(2) have t1: "attribute_tuples g' = filter (\<lambda>t. ?keep (fst t)) (attribute_tuples g)"
    by simp
  have "\<And>p. ?keep p = (\<forall>view\<in>set views. covered project view p)"
    unfolding views_covering_def by (rule all_views_iff)
  with t1 have t2: "attribute_tuples g' =
      filter (\<lambda>t. \<forall>view\<in>set views. covered project view (fst t)) (attribute_tuples g)"
    by simp
  have vt: "VIEW_THRESHOLD = 1" by (simp add: VIEW_THRESHOLD_def)
  from rm g'(1) t1 t2
  have "\<exists>g'. remove_gaussians_with_mask project g views = Inr g' \<and>
            attribute_tuples g' =
              filter (\<lambda>t. real (views_covering project views (fst t))
                             \<ge> real (length views) * VIEW_THRESHOLD) (attribute_tuples g) \<and>
            attribute_tuples g' =
              filter (\<lambda>t. \<forall>view\<in>set views. covered project view (fst t)) (attribute_tuples g)"
    by auto
  with per_view counts vt show ?thesis by blast
qed

theorem visibility_pruning_rule_witness:
  "list_all mask_shape_ok [ex_view] \<and> aligned ex_gaussians \<and>
   view_loop ex_project [ex_view] (xyz ex_gaussians) (replicate (length (xyz ex_gaussians)) 0) =
     Inr [1, 0, 0] \<and>
   VIEW_THRESHOLD = 1 \<and>
   remove_gaussians_with_mask ex_project ex_gaussians [ex_view] = Inr ex_single \<and>
   attribute_tuples ex_single =
     filter (\<lambda>t. \<forall>view\<in>set [ex_view]. covered ex_project view (fst t))
       (attribute_tuples ex_gaussians)"
proof -
  note inst = visibility_pruning_rule[OF ex_views_ok ex_aligned, of ex_project]
  from inst have "view_loop ex_project [ex_view] (xyz ex_gaussians)
      (replicate (length (xyz ex_gaussians)) 0) =
      Inr (map (\<lambda>p. int (views_covering ex_project [ex_view] p)) (xyz ex_gaussians))"
    by blast
  moreover have "map (\<lambda>p. int (views_covering ex_project [ex_view] p)) (xyz ex_gaussians) = [1, 0, 0]"
    by (simp add: views_covering_def covered_def ex_project_def ex_view_def valid_uv_def
        ex_gaussians_def)
  ultimately have counts: "view_loop ex_project [ex_view] (xyz ex_gaussians)
      (replicate (length (xyz ex_gaussians)) 0) = Inr [1, 0, 0]"
    by simp
  from inst obtain g' where "remove_gaussians_with_mask ex_project ex_gaussians [ex_view] = Inr g'"
    "attribute_tuples g' =
     filter (\<lambda>t. \<forall>view\<in>set [ex_view]. covered ex_project view (fst t))
       (attribute_tuples ex_gaussians)"
    by blast
  with ex_remove_with_mask have "attribute_tuples ex_single =
     filter (\<lambda>t. \<forall>view\<in>set [ex_view]. covered ex_project view (fst t))
       (attribute_tuples ex_gaussians)"
    by simp
  moreover from inst have "VIEW_THRESHOLD = 1" by blast
  ultimately show ?thesis
    using ex_views_ok ex_aligned counts ex_remove_with_mask by blast
qed

text \<open>
  The claim as stated calls the threshold configurable. The function takes the gaussians
  and the views and nothing else, and its threshold is the literal 1.0: a gaussian
  covered in one of two views, half of them, is removed, and no call of the function
  keeps it.
\<close>

theorem visibility_pruning_rule_counterexample:
  "VIEW_THRESHOLD = 1 \<and>
   length [ex_view, ex_view_blank] = 2 \<and>
   views_covering ex_project [ex_view, ex_view_blank] (0, 0, 1) = 1 \<and>
   remove_gaussians_with_mask ex_project ex_single [ex_view, ex_view_blank] = Inr ex_none"
proof -
  have "views_covering ex_project [ex_view, ex_view_blank] (0, 0, 1) = 1"
    by (simp add: views_covering_def covered_def ex_project_def ex_view_def
        ex_view_blank_def valid_uv_def)
  moreover have "remove_gaussians_with_mask ex_project ex_single [ex_view, ex_view_blank] =
      Inr ex_none"
    by (simp add: remove_gaussians_with_mask_def ex_single_def ex_project_def ex_view_def
        ex_view_blank_def valid_uv_def mask_at_def py_index_def VIEW_THRESHOLD_def
        select_gaussians_def bool_index_def ex_none_def)
  ultimately show ?thesis by (simp add: VIEW_THRESHOLD_def)
qed

subsection \<open>The alignment invariant\<close>

lemma select_gaussians_pruned:
  assumes "aligned g" and "length m = length (xyz g)"
  shows "\<exists>g'. select_gaussians g m = Inr g' \<and> aligned g' \<and>
           (\<exists>m. length m = length (xyz g) \<and> attribute_tuples g' = masked (attribute_tuples g) m)"
  using select_gaussians_aligned[OF assms] assms(2) by blast

text \<open>
  Claim C3. For a gaussian set whose six attribute tensors have equal length, each of the
  three pruning functions returns (whenever it returns, for the mask pruning; always, for
  the other two) a set whose six tensors again have equal length and whose attribute
  tuples are those of the input selected by one boolean mask over the points: a point is
  removed from all six tensors or from none, and a surviving point keeps its tuple.
\<close>

theorem pruning_keeps_alignment:
  assumes "aligned g"
  shows "(\<forall>g'. remove_gaussians_with_mask project g views = Inr g' \<longrightarrow>
            aligned g' \<and>
            (\<exists>m. length m = length (xyz g) \<and> attribute_tuples g' = masked (attribute_tuples g) m)) \<and>
         (\<exists>g'. remove_gaussians_with_low_opacity act g thr = Inr g' \<and> aligned g' \<and>
            (\<exists>m. length m = length (xyz g) \<and> attribute_tuples g' = masked (attribute_tuples g) m)) \<and>
         (\<exists>g'. remove_gaussians_with_point_mesh_distance inside g mesh r = Inr g' \<and> aligned g' \<and>
            (\<exists>m. length m = length (xyz g) \<and> attribute_tuples g' = masked (attribute_tuples g) m))"
proof (intro conjI allI impI)
  fix g'
  assume rm: "remove_gaussians_with_mask project g views = Inr g'"
  then obtain counter where c: "view_loop project views (xyz g) (replicate (length (xyz g)) 0) = Inr counter"
    and s: "select_gaussians g (map (\<lambda>c. real_of_int c \<ge> real (length views) * VIEW_THRESHOLD) counter) = Inr g'"
    by (auto simp: remove_gaussians_with_mask_def Let_def split: sum.splits)
  from view_loop_length[OF c] have "length counter = length (xyz g)" by simp
  with select_gaussians_pruned[OF assms, of "map (\<lambda>c. real_of_int c \<ge> real (length views) * VIEW_THRESHOLD) counter"] s
  show "aligned g'" and "\<exists>m. length m = length (xyz g) \<and> attribute_tuples g' = masked (attribute_tuples g) m"
    by auto
next
  from assms have "length (map (\<lambda>a. a > thr) (get_opacity act g)) = length (xyz g)"
    by (simp add: get_opacity_def aligned_def)
  from select_gaussians_pruned[OF assms this]
  show "\<exists>g'. remove_gaussians_with_low_opacity act g thr = Inr g' \<and> aligned g' \<and>
            (\<exists>m. length m = length (xyz g) \<and> attribute_tuples g' = masked (attribute_tuples g) m)"
    by (simp add: remove_gaussians_with_low_opacity_def Let_def)
next
  have "length (map (\<lambda>idx. idx \<noteq> - 1) (ball_query inside (xyz g) mesh r)) = length (xyz g)"
    by (simp add: ball_query_def)
  from select_gaussians_pruned[OF assms this]
  show "\<exists>g'. remove_gaussians_with_point_mesh_distance inside g mesh r = Inr g' \<and> aligned g' \<and>
            (\<exists>m. length m = length (xyz g) \<and> attribute_tuples g' = masked (attribute_tuples g) m)"
    by (simp add: remove_gaussians_with_point_mesh_distance_def Let_def)
qed

lemma ex_remove_low_opacity:
  "remove_gaussians_with_low_opacity (\<lambda>x. x) ex_gaussians (- 1) = 
     Inr \<lparr>xyz = [(0, 0, 1), (1, 0, 1)], features_dc = [[1], [2]],
        features_rest = [[], []], scaling = [[1, 1, 1], [2, 2, 2]],
        rotation = [[1, 0, 0, 0], [0, 1, 0, 0]], opacity = [0, 2]\<rparr>"
  by (simp add: remove_gaussians_with_low_opacity_def get_opacity_def ex_gaussians_def
      select_gaussians_def bool_index_def)

lemma ex_remove_mesh:
  "remove_gaussians_with_point_mesh_distance in_ball ex_gaussians [(0, 0, 1)] 2 = 
     Inr \<lparr>xyz = [(0, 0, 1), (1, 0, 1)], features_dc = [[1], [2]],
        features_rest = [[], []], scaling = [[1, 1, 1], [2, 2, 2]],
        rotation = [[1, 0, 0, 0], [0, 1, 0, 0]], opacity = [0, 2]\<rparr>"
  by (simp add: remove_gaussians_with_point_mesh_distance_def ball_query_def in_ball_def
      sq_dist_def ex_gaussians_def select_gaussians_def bool_index_def)

theorem pruning_keeps_alignment_witness:
  "aligned ex_gaussians \<and>
   remove_gaussians_with_mask ex_project ex_gaussians [ex_view] = Inr ex_single \<and>
   aligned ex_single \<and>
   (\<exists>m. length m = length (xyz ex_gaussians) \<and>
        attribute_tuples ex_single = masked (attribute_tuples ex_gaussians) m) \<and>
   (\<exists>g'. remove_gaussians_with_low_opacity (\<lambda>x. x) ex_gaussians (- 1) = Inr g' \<and> aligned g' \<and>
      (\<exists>m. length m = length (xyz ex_gaussians) \<and>
           attribute_tuples g' = masked (attribute_tuples ex_gaussians) m)) \<and>
   (\<exists>g'. remove_gaussians_with_point_mesh_distance in_ball ex_gaussians [(0, 0, 1)] 2 = Inr g' \<and>
      aligned g' \<and>
      (\<exists>m. length m = length (xyz ex_gaussians) \<and>
           attribute_tuples g' = masked (attribute_tuples ex_gaussians) m))"
  using ex_aligned ex_remove_with_mask
    pruning_keeps_alignment[OF ex_aligned, of ex_project "[ex_view]" "\<lambda>x. x" "- 1" in_ball
      "[(0, 0, 1)]" 2]
  by blast

subsection \<open>Mesh-distance pruning\<close>

text \<open>
  Whatever the ball test, a gaussian of an aligned set survives exactly when the scan
  finds a mesh sample that passes the test for it.
\<close>

lemma mesh_distance_pruning_rule:
  assumes "aligned g"
  shows "map (\<lambda>idx. idx \<noteq> - 1) (ball_query inside (xyz g) mesh r) =
           map (\<lambda>p. \<exists>q\<in>set mesh. inside p q r) (xyz g) \<and>
         (\<exists>g'. remove_gaussians_with_point_mesh_distance inside g mesh r = Inr g' \<and>
            attribute_tuples g' =
              filter (\<lambda>t. \<exists>q\<in>set mesh. inside (fst t) q r) (attribute_tuples g))"
proof -
  let ?keep = "\<lambda>p. \<exists>q\<in>set mesh. inside p q r"
  have m: "map (\<lambda>idx. idx \<noteq> - 1) (ball_query inside (xyz g) mesh r) = map ?keep (xyz g)"
    by (simp add: ball_query_def ball_query_scan_hit comp_def)
  from select_gaussians_aligned[OF assms, of "map ?keep (xyz g)"] obtain g' where
    g': "select_gaussians g (map ?keep (xyz g)) = Inr g'"
      "attribute_tuples g' = masked (attribute_tuples g) (map ?keep (xyz g))"
    by auto
  have "masked (attribute_tuples g) (map ?keep (xyz g)) =
        filter (\<lambda>t. ?keep (fst t)) (attribute_tuples g)"
    using masked_fst_filter[of "attribute_tuples g" ?keep] map_fst_attribute_tuples[OF assms]
    by simp
  with g' m show ?thesis
    by (simp add: remove_gaussians_with_point_mesh_distance_def Let_def)
qed

text \<open>
  For a non-negative radius the library's test is: the Euclidean distance is strictly
  below the radius.
\<close>

lemma sq_dist_nonneg: "0 \<le> sq_dist p q"
  by (cases p; cases q) (simp add: sq_dist_def)

lemma in_ball_distance:
  assumes "0 \<le> r"
  shows "in_ball p q r = (sqrt (sq_dist p q) < r)"
proof -
  from assms have "sqrt (r * r) = r" by simp
  then have "(sqrt (sq_dist p q) < r) = (sqrt (sq_dist p q) < sqrt (r * r))" by simp
  also have "\<dots> = (sq_dist p q < r * r)" by (rule real_sqrt_less_iff)
  finally show ?thesis by (simp add: in_ball_def)
qed

text \<open>
  So with the library's test and a non-negative threshold, the survivors are the
  gaussians with a mesh sample at a distance strictly below \<open>dist_threshold\<close>; a
  gaussian whose nearest sample is at exactly \<open>dist_threshold\<close> is removed.
\<close>

lemma mesh_distance_survivors:
  assumes "aligned g" and "0 \<le> r"
  shows "\<exists>g'. remove_gaussians_with_point_mesh_distance in_ball g mesh r = Inr g' \<and>
            attribute_tuples g' =
              filter (\<lambda>t. \<exists>q\<in>set mesh. sqrt (sq_dist (fst t) q) < r) (attribute_tuples g)"
  using mesh_distance_pruning_rule[OF assms(1), of in_ball mesh r]
  by (simp add: in_ball_distance[OF assms(2)])

lemma mesh_distance_example:
  "map (\<lambda>idx. idx \<noteq> - 1) (ball_query in_ball (xyz ex_gaussians) [(0, 0, 1)] 2) =
     [True, True, False] \<and>
   (\<exists>g'. remove_gaussians_with_point_mesh_distance in_ball ex_gaussians [(0, 0, 1)] 2 = Inr g' \<and>
      attribute_tuples g' =
        [((0, 0, 1), [1], [], [1, 1, 1], [1, 0, 0, 0], 0),
         ((1, 0, 1), [2], [], [2, 2, 2], [0, 1, 0, 0], 2)])"
proof -
  have m: "map (\<lambda>p. \<exists>q\<in>set [(0, 0, 1)]. in_ball p q 2) (xyz ex_gaussians) = [True, True, False]"
    by (simp add: in_ball_def sq_dist_def ex_gaussians_def)
  have f: "filter (\<lambda>t. \<exists>q\<in>set [(0, 0, 1)]. in_ball (fst t) q 2) (attribute_tuples ex_gaussians) =
        [((0, 0, 1), [1], [], [1, 1, 1], [1, 0, 0, 0], 0),
         ((1, 0, 1), [2], [], [2, 2, 2], [0, 1, 0, 0], 2)]"
    by (simp add: in_ball_def sq_dist_def ex_gaussians_def attribute_tuples_def)
  from mesh_distance_pruning_rule[OF ex_aligned, of in_ball "[(0, 0, 1)]" 2]
  show ?thesis unfolding m f by blast
qed

text \<open>
  Claim C7 at its boundary. The gaussian at \<open>(0, 0, 1)\<close> is at distance exactly 2 from
  the only mesh sample \<open>(2, 0, 1)\<close>, so with \<open>dist_threshold = 2\<close> it is not farther than
  the threshold from the reference surface. The ball query returns no hit for it (index
  -1, since 4 is not below 4) and the call removes it.
\<close>

theorem mesh_distance_boundary:
  "sqrt (sq_dist (0, 0, 1) (2, 0, 1)) = 2 \<and>
   ball_query in_ball (xyz ex_single) [(2, 0, 1)] 2 = [- 1] \<and>
   remove_gaussians_with_point_mesh_distance in_ball ex_single [(2, 0, 1)] 2 = Inr ex_none"
proof -
  have "sq_dist (0, 0, 1) (2, 0, 1) = 4" by (simp add: sq_dist_def)
  then have "sqrt (sq_dist (0, 0, 1) (2, 0, 1)) = 2" by simp
  moreover have "ball_query in_ball (xyz ex_single) [(2, 0, 1)] 2 = [- 1]"
    by (simp add: ball_query_def in_ball_def sq_dist_def ex_single_def)
  moreover have "remove_gaussians_with_point_mesh_distance in_ball ex_single [(2, 0, 1)] 2 =
      Inr ex_none"
    by (simp add: remove_gaussians_with_point_mesh_distance_def ball_query_def in_ball_def
        sq_dist_def ex_single_def select_gaussians_def bool_index_def ex_none_def)
  ultimately show ?thesis by blast
qed

subsection \<open>Opacity pruning\<close>

lemma map_opacity_attribute_tuples:
  "aligned g \<Longrightarrow> map (\<lambda>t. snd (snd (snd (snd (snd t))))) (attribute_tuples g) = opacity g"
proof -
  assume a: "aligned g"
  have "map (\<lambda>t. snd (snd (snd (snd (snd t))))) (attribute_tuples g) =
        map snd (map snd (map snd (map snd (map snd (attribute_tuples g)))))"
    by (simp add: comp_def)
  also have "\<dots> = opacity g"
    using a by (simp add: attribute_tuples_def aligned_def del: map_map)
  finally show ?thesis .
qed

lemma low_opacity_pruning_rule:
  assumes "aligned g"
  shows "\<exists>g'. remove_gaussians_with_low_opacity act g thr = Inr g' \<and>
            attribute_tuples g' =
              filter (\<lambda>t. act (snd (snd (snd (snd (snd t))))) > thr) (attribute_tuples g)"
proof -
  let ?sel = "\<lambda>t::point \<times> real list \<times> real list \<times> real list \<times> real list \<times> real. snd (snd (snd (snd (snd t))))"
  let ?m = "map (\<lambda>a. a > thr) (get_opacity act g)"
  have len: "length ?m = length (xyz g)" using assms by (simp add: get_opacity_def aligned_def)
  have "?m = map (\<lambda>t. act (?sel t) > thr) (attribute_tuples g)"
    using map_opacity_attribute_tuples[OF assms, symmetric]
    by (simp add: get_opacity_def comp_def)
  then have "masked (attribute_tuples g) ?m = filter (\<lambda>t. act (?sel t) > thr) (attribute_tuples g)"
    by (simp add: masked_map_filter)
  with select_gaussians_aligned[OF assms len] show ?thesis
    by (auto simp: remove_gaussians_with_low_opacity_def Let_def)
qed

lemma sigmoid_0: "sigmoid 0 = 1 / 2"
  by (simp add: sigmoid_def)

text \<open>
  Claim C6 at its boundary. A gaussian whose activated opacity equals the threshold is
  removed: the mask of the source is \<open>opacity > opacity_threshold\<close>, so the survivors
  are the points strictly above the threshold (lemma \<open>low_opacity_pruning_rule\<close>), and
  the single gaussian of raw opacity 0, activated opacity 1/2, does not survive the
  threshold 1/2.
\<close>

theorem low_opacity_boundary:
  "get_opacity sigmoid ex_single = [1 / 2] \<and>
   remove_gaussians_with_low_opacity sigmoid ex_single (1 / 2) = Inr ex_none"
  by (simp add: remove_gaussians_with_low_opacity_def get_opacity_def ex_single_def sigmoid_0
      select_gaussians_def bool_index_def ex_none_def)

subsection \<open>Ray directions\<close>

lemma directions_rows:
  "map (map (\<lambda>(u, v). (fdiv (u - cx + 1 / 2) fx, fdiv (v - cy + 1 / 2) fy, 1::real)))
     (create_meshgrid H W) =
   map (\<lambda>i. map (\<lambda>j. (fdiv (real j - cx + 1 / 2) fx, fdiv (real i - cy + 1 / 2) fy, 1))
              [0..<W]) [0..<H]"
  by (simp add: create_meshgrid_def comp_def)

text \<open>
  What the call leaves in \<open>K\<close>: the caller's tensor when the factor is at most 1, the
  rescaled one otherwise.
\<close>

lemma get_ray_directions_K:
  "fst (get_ray_directions sz H W K ru rv random return_uv flatten aa) =
     (if aa > 1 then (imul K aa)\<lparr>m22 := 1\<rparr> else K)"
  by (simp add: get_ray_directions_def Let_def)

text \<open>
  With \<open>random=False\<close> the result does not depend on the random samples, and the
  directions returned are, for the image size in effect and in row-major order, the
  closed-form values for the intrinsics as the call leaves them, with \<open>u\<close> the column
  and \<open>v\<close> the row of the pixel.
\<close>

lemma get_ray_directions_no_random:
  "get_ray_directions sz H W K ru rv False return_uv flatten aa =
   get_ray_directions sz H W K ru' rv' False return_uv flatten aa"
  by (simp add: get_ray_directions_def Let_def)

lemma get_ray_directions_closed_form:
  assumes "get_ray_directions sz H W K ru rv False return_uv flatten aa = (K', Inr (dirs, uv))"
  shows "let H' = nat (if aa > 1 then sz H aa else H);
             W' = nat (if aa > 1 then sz W aa else W);
             rows = map (\<lambda>i. map (\<lambda>j. pixel_direction K' (real j) (real i)) [0..<W']) [0..<H']
         in dirs = (if flatten then Flat (concat rows) else Grid rows)"
  using assms
  by (auto simp: get_ray_directions_def Let_def directions_rows pixel_direction_def
      split: if_splits)

lemma ex_rays:
  "get_ray_directions sz 1 2 ex_K ru rv False False True 1 =
     (ex_K, Inr (Flat [(Some (- 1 / 4), Some (- 1 / 4), 1), (Some (1 / 4), Some (- 1 / 4), 1)],
                 None))"
  by (simp add: get_ray_directions_def create_meshgrid_def ex_K_def fdiv_def upt_rec)

text \<open>
  Claim C5 where it fails. Called with \<open>anti_aliasing_factor = 2\<close> on intrinsics of focal
  length 2 and principal point \<open>(1, 1)\<close>, the function leaves focal length 4 and
  principal point \<open>(2, 2)\<close> in the caller's tensor, whatever the other arguments, and a
  second call with the same tensor scales it again, to focal length 8.
\<close>

theorem get_ray_directions_rescales_K:
  "fst (get_ray_directions sz 1 2 ex_K ru rv random return_uv flatten 2) =
     \<lparr>m00 = 4, m01 = 0, m02 = 2, m10 = 0, m11 = 4, m12 = 2, m20 = 0, m21 = 0, m22 = 1\<rparr> \<and>
   fst (get_ray_directions sz 1 2 ex_K ru rv random return_uv flatten 2) \<noteq> ex_K \<and>
   fst (get_ray_directions sz 1 2
          (fst (get_ray_directions sz 1 2 ex_K ru rv random return_uv flatten 2))
          ru rv random return_uv flatten 2) =
     \<lparr>m00 = 8, m01 = 0, m02 = 4, m10 = 0, m11 = 8, m12 = 4, m20 = 0, m21 = 0, m22 = 1\<rparr>"
  by (simp add: get_ray_directions_K imul_def ex_K_def)

end
